theory Spec2Isabelle
  imports Main "HOL-Library.Word"
begin

section \<open>MRN fragment reassembly: the model of \<open>process_mrn_update\<close>\<close>

text \<open>
  The development embeds \<open>process_mrn_update\<close> of \<open>OMMStream-MRN-LD.py\<close>: the
  function that receives one Update message of the \<open>MRN_STORY\<close> stream, merges its
  fragment into the module-level list \<open>_news_envelopes\<close>, and decompresses and parses
  the news once all its bytes have arrived.
\<close>

subsection \<open>Values, exceptions and the library functions\<close>

type_synonym byte = "8 word"

text \<open>
  The field values of a message as far as the function tells them apart:
  \<open>None\<close>, an integer, or a string. On these Python's \<open>==\<close> is structural equality.
\<close>

datatype pyval = PNone | PInt int | PStr string

type_synonym fields = "string \<rightharpoonup> pyval"

text \<open>
  \<open>message_json\<close>: only its \<open>'Fields'\<close> entry is read; \<open>None\<close> stands for a message
  without that key.
\<close>

datatype message = Message (Fields: "fields option")

text \<open>The exception classes that the function's operations raise or that it names.\<close>

datatype exn =
    KeyError
  | IndexError
  | BinasciiError
  | ZlibError
  | UnicodeEncodeError
  | TypeError
  | ValueError
  | JSONDecodeError
  | UnicodeDecodeError
  | OtherException string

text \<open>
  The library calls of the function are parameters of the model:
  \<open>base64.b64decode\<close> and \<open>int\<close> on a string, \<open>zlib.decompress\<close> with
  \<open>zlib.MAX_WBITS | 32\<close>, \<open>json.loads\<close>, and the \<open>print\<close> of the parsed news
  (which may raise on a console that cannot encode it). Each returns its value
  or the exception it raises.
\<close>

record 'doc lib =
  b64decode_str :: "string \<Rightarrow> exn + byte list"
  int_str :: "string \<Rightarrow> exn + int"
  zlib_decompress :: "byte list \<Rightarrow> exn + byte list"
  json_loads :: "byte list \<Rightarrow> exn + 'doc"
  print_news :: "'doc \<Rightarrow> exn option"

text \<open>\<open>base64.b64decode(v)\<close>: a value that is not a string is a \<open>TypeError\<close>.\<close>

fun b64decode :: "('doc, 'x) lib_scheme \<Rightarrow> pyval \<Rightarrow> exn + byte list" where
  "b64decode L (PStr s) = b64decode_str L s"
| "b64decode L (PInt n) = Inl TypeError"
| "b64decode L PNone = Inl TypeError"

text \<open>\<open>int(v)\<close>: an integer is returned as it is, \<open>None\<close> is a \<open>TypeError\<close>.\<close>

fun py_int :: "('doc, 'x) lib_scheme \<Rightarrow> pyval \<Rightarrow> exn + int" where
  "py_int L (PInt n) = Inr n"
| "py_int L (PStr s) = int_str L s"
| "py_int L PNone = Inl TypeError"

text \<open>\<open>fields_data[k]\<close>: a missing key is a \<open>KeyError\<close>.\<close>

definition getitem :: "fields \<Rightarrow> string \<Rightarrow> exn + pyval" where
  "getitem fd k = (case fd k of None \<Rightarrow> Inl KeyError | Some v \<Rightarrow> Inr v)"

subsection \<open>The news envelopes\<close>

text \<open>
  One element of \<open>_news_envelopes\<close>: the dictionary
  \<open>{'GUID': guid, 'data': {'FRAGMENT', 'MRN_SRC', 'FRAG_NUM', 'tot_size'}}\<close>.
\<close>

record envelope_data =
  FRAGMENT :: "byte list"
  MRN_SRC :: pyval
  FRAG_NUM :: int
  tot_size :: int

record envelope =
  GUID :: pyval
  data :: envelope_data

text \<open>
  \<open>next((index for (index, d) in enumerate(_news_envelopes) if d['GUID'] == guid), None)\<close>:
  the index of the first envelope with that GUID.
\<close>

fun guid_index :: "envelope list \<Rightarrow> pyval \<Rightarrow> nat option" where
  "guid_index [] g = None"
| "guid_index (d # ds) g =
     (if GUID d = g then Some 0 else map_option Suc (guid_index ds g))"

text \<open>\<open>del _news_envelopes[i]\<close>, for an index in range.\<close>

definition del_at :: "nat \<Rightarrow> 'a list \<Rightarrow> 'a list" where
  "del_at i xs = take i xs @ drop (Suc i) xs"

subsection \<open>What one call does\<close>

text \<open>
  The \<open>except\<close> clauses in their order; each prints its own line. \<open>CatchAll\<close> is the
  final \<open>except Exception\<close>, which prints the class of the exception.
  \<open>OutOfSequence\<close> is the \<open>else\<close> branch printing
  \<open>Error: Cannot find fragment for GUID ... with matching FRAG_NUM or MRN_SRC\<close>.
\<close>

datatype reason =
    KeyErrorCaught
  | IndexErrorCaught
  | DecodeError
  | DecompressionError
  | EncodingError
  | CatchAll exn
  | OutOfSequence

fun handler :: "exn \<Rightarrow> reason" where
  "handler KeyError = KeyErrorCaught"
| "handler IndexError = IndexErrorCaught"
| "handler BinasciiError = DecodeError"
| "handler ZlibError = DecompressionError"
| "handler UnicodeEncodeError = EncodingError"
| "handler e = CatchAll e"

text \<open>
  The observable result of a call that returns:
  \<^item> \<open>Pending\<close>: \<open>return None\<close> after storing or merging an incomplete envelope;
  \<^item> \<open>Completed bs r\<close>: the final block was entered with \<open>fragment = bs\<close>, and \<open>r\<close> is
    the parsed news or the \<open>except\<close> clause that caught the failure of that block;
  \<^item> \<open>Rejected r\<close>: an exception was caught before the final block, or the
    \<open>else\<close> branch of the sequence check was taken;
  \<^item> \<open>Dropped\<close>: the final test \<open>tot_size == len(fragment)\<close> was false.
\<close>

datatype 'doc outcome =
    Pending
  | Completed "byte list" "reason + 'doc"
  | Rejected reason
  | Dropped

text \<open>
  \<open>zlib.decompress(fragment, zlib.MAX_WBITS | 32)\<close>, \<open>json.loads\<close> and the \<open>print\<close>
  of the news.
\<close>

definition decode_news :: "('doc, 'x) lib_scheme \<Rightarrow> byte list \<Rightarrow> exn + 'doc" where
  "decode_news L fragment =
     (case zlib_decompress L fragment of
        Inl e \<Rightarrow> Inl e
      | Inr decompressed_data \<Rightarrow>
          (case json_loads L decompressed_data of
             Inl e \<Rightarrow> Inl e
           | Inr doc \<Rightarrow>
               (case print_news L doc of
                  Some e \<Rightarrow> Inl e
                | None \<Rightarrow> Inr doc)))"

text \<open>A result under the \<open>except\<close> clauses: an exception becomes the clause catching it.\<close>

definition under_except :: "exn + 'doc \<Rightarrow> reason + 'doc" where
  "under_except r = (case r of Inl e \<Rightarrow> Inl (handler e) | Inr doc \<Rightarrow> Inr doc)"

text \<open>The final block \<open>if tot_size == len(fragment): ...\<close> under the \<open>except\<close> clauses.\<close>

definition completed :: "('doc, 'x) lib_scheme \<Rightarrow> int \<Rightarrow> byte list \<Rightarrow> 'doc outcome" where
  "completed L tot fragment =
     (if tot = int (length fragment)
      then Completed fragment (under_except (decode_news L fragment))
      else Dropped)"

text \<open>
  The branch \<open>if frag_num > 1\<close>, with the fields already read. When the lookup finds no
  envelope, \<open>_news_envelopes[None]\<close> raises \<open>TypeError\<close>. An envelope is a non-empty
  dictionary, so the conjunct \<open>envelop\<close> of the test is true whenever the test is reached.
\<close>

definition next_fragment ::
  "('doc, 'x) lib_scheme \<Rightarrow> envelope list \<Rightarrow> byte list \<Rightarrow> int \<Rightarrow> pyval \<Rightarrow> pyval
     \<Rightarrow> envelope list \<times> 'doc outcome" where
  "next_fragment L envs fragment frag_num guid mrn_src =
     (case guid_index envs guid of
        None \<Rightarrow> (envs, Rejected (handler TypeError))
      | Some i \<Rightarrow>
          (let envelop = envs ! i in
           if MRN_SRC (data envelop) = mrn_src \<and> frag_num = FRAG_NUM (data envelop) + 1
           then
             (let merged = FRAGMENT (data envelop) @ fragment;
                  envs' = envs[i := envelop\<lparr>data :=
                            (data envelop)\<lparr>FRAGMENT := merged, FRAG_NUM := frag_num\<rparr>\<rparr>];
                  tot = tot_size (data envelop)
              in if tot \<noteq> int (length merged) then (envs', Pending)
                 else (del_at i envs', completed L tot merged))
           else (envs, Rejected OutOfSequence)))"

text \<open>The branch \<open>else\<close> (\<open>frag_num \<le> 1\<close>), with the other fields already read.\<close>

definition first_fragment ::
  "('doc, 'x) lib_scheme \<Rightarrow> envelope list \<Rightarrow> fields \<Rightarrow> byte list \<Rightarrow> int \<Rightarrow> pyval \<Rightarrow> pyval
     \<Rightarrow> envelope list \<times> 'doc outcome" where
  "first_fragment L envs fd fragment frag_num guid mrn_src =
     (case getitem fd ''TOT_SIZE'' of
        Inl e \<Rightarrow> (envs, Rejected (handler e))
      | Inr tv \<Rightarrow>
          (case py_int L tv of
             Inl e \<Rightarrow> (envs, Rejected (handler e))
           | Inr tot \<Rightarrow>
               if tot \<noteq> int (length fragment)
               then (envs @ [\<lparr>GUID = guid,
                              data = \<lparr>FRAGMENT = fragment, MRN_SRC = mrn_src,
                                      FRAG_NUM = frag_num, tot_size = tot\<rparr>\<rparr>],
                     Pending)
               else (envs, completed L tot fragment)))"

text \<open>
  The \<open>try\<close> statement: the four reads, then one of the two branches.

  The \<open>print\<close> calls of the branches and of the \<open>except\<close> clauses are taken to succeed.
  Line 28 sets the console to UTF-8, which encodes every string of this model (strings of
  8-bit characters), so on these values no \<open>print\<close> of a GUID or source raises. A string
  that UTF-8 cannot encode (a lone surrogate) is outside the model: on such a GUID the
  \<open>print\<close> of line 88 or 102 raises \<open>UnicodeEncodeError\<close>, and the clause that catches it
  prints the GUID again (line 116).
\<close>

definition try_block ::
  "('doc, 'x) lib_scheme \<Rightarrow> envelope list \<Rightarrow> fields \<Rightarrow> envelope list \<times> 'doc outcome" where
  "try_block L envs fd =
     (case getitem fd ''FRAGMENT'' of
        Inl e \<Rightarrow> (envs, Rejected (handler e))
      | Inr fv \<Rightarrow>
     (case b64decode L fv of
        Inl e \<Rightarrow> (envs, Rejected (handler e))
      | Inr fragment \<Rightarrow>
     (case getitem fd ''FRAG_NUM'' of
        Inl e \<Rightarrow> (envs, Rejected (handler e))
      | Inr nv \<Rightarrow>
     (case py_int L nv of
        Inl e \<Rightarrow> (envs, Rejected (handler e))
      | Inr frag_num \<Rightarrow>
     (case getitem fd ''GUID'' of
        Inl e \<Rightarrow> (envs, Rejected (handler e))
      | Inr guid \<Rightarrow>
     (case getitem fd ''MRN_SRC'' of
        Inl e \<Rightarrow> (envs, Rejected (handler e))
      | Inr mrn_src \<Rightarrow>
          if frag_num > 1
          then next_fragment L envs fragment frag_num guid mrn_src
          else first_fragment L envs fd fragment frag_num guid mrn_src))))))"

text \<open>
  \<open>process_mrn_update\<close>: \<open>message_json['Fields']\<close> is read before the \<open>try\<close>, so its
  \<open>KeyError\<close> leaves the function (\<open>Inl\<close>); everything else returns the new list of
  envelopes and the outcome.
\<close>

definition process_mrn_update ::
  "('doc, 'x) lib_scheme \<Rightarrow> envelope list \<Rightarrow> message
     \<Rightarrow> exn + (envelope list \<times> 'doc outcome)" where
  "process_mrn_update L envs message_json =
     (case Fields message_json of
        None \<Rightarrow> Inl KeyError
      | Some fields_data \<Rightarrow> Inr (try_block L envs fields_data))"

text \<open>
  The stream delivers its Update messages one at a time; \<open>on_updates\<close> feeds a list of
  them to \<open>process_mrn_update\<close> in order and collects the outcomes. An exception that
  leaves a call ends the run.
\<close>

fun on_updates ::
  "('doc, 'x) lib_scheme \<Rightarrow> envelope list \<Rightarrow> message list
     \<Rightarrow> exn + (envelope list \<times> 'doc outcome list)" where
  "on_updates L envs [] = Inr (envs, [])"
| "on_updates L envs (m # ms) =
     (case process_mrn_update L envs m of
        Inl e \<Rightarrow> Inl e
      | Inr (envs', out) \<Rightarrow>
          (case on_updates L envs' ms of
             Inl e \<Rightarrow> Inl e
           | Inr (envs'', outs) \<Rightarrow> Inr (envs'', out # outs)))"

subsection \<open>Concrete messages\<close>

text \<open>
  A stand-in for the library, to run the model on concrete messages. It follows CPython
  on the strings and byte sequences used below.

  \<open>base64.b64decode\<close> on a string: a string with a character that is not ASCII raises
  \<open>ValueError\<close>; otherwise \<open>binascii.a2b_base64\<close> reads the characters of the base64
  alphabet four at a time, skips every other character, stops at the padding that ends a
  group, and raises \<open>binascii.Error\<close> when the characters end inside a group.
\<close>

definition sextet :: "char \<Rightarrow> nat option" where
  "sextet c =
     (let n = of_char c :: nat in
      if 65 \<le> n \<and> n \<le> 90 then Some (n - 65)
      else if 97 \<le> n \<and> n \<le> 122 then Some (n - 71)
      else if 48 \<le> n \<and> n \<le> 57 then Some (n + 4)
      else if n = 43 then Some 62
      else if n = 47 then Some 63
      else None)"

fun a2b_base64 :: "nat \<Rightarrow> nat \<Rightarrow> nat \<Rightarrow> string \<Rightarrow> byte list \<Rightarrow> exn + byte list" where
  "a2b_base64 quad_pos leftchar pads [] out =
     (if quad_pos \<noteq> 0 then Inl BinasciiError else Inr out)"
| "a2b_base64 quad_pos leftchar pads (c # cs) out =
     (if c = CHR ''='' then
        (if 2 \<le> quad_pos \<and> 4 \<le> quad_pos + (pads + 1) then Inr out
         else a2b_base64 quad_pos leftchar (if 2 \<le> quad_pos then pads + 1 else pads) cs out)
      else
        (case sextet c of
           None \<Rightarrow> a2b_base64 quad_pos leftchar pads cs out
         | Some v \<Rightarrow>
             if quad_pos = 0 then a2b_base64 1 v 0 cs out
             else if quad_pos = 1
               then a2b_base64 2 (v mod 16) 0 cs (out @ [of_nat (leftchar * 4 + v div 16)])
             else if quad_pos = 2
               then a2b_base64 3 (v mod 4) 0 cs (out @ [of_nat (leftchar * 16 + v div 4)])
             else a2b_base64 0 0 0 cs (out @ [of_nat (leftchar * 64 + v)])))"

text \<open>\<open>int\<close> on a string of decimal digits; any other string is taken to raise \<open>ValueError\<close>.\<close>

fun decimal :: "nat \<Rightarrow> string \<Rightarrow> nat option" where
  "decimal acc [] = Some acc"
| "decimal acc (c # cs) =
     (let d = of_char c :: nat in
      if 48 \<le> d \<and> d \<le> 57 then decimal (10 * acc + (d - 48)) cs else None)"

text \<open>
  The parsed news, and two compressed texts: \<open>zlib.compress(b'{}')\<close>, which parses to the
  empty object, and \<open>zlib.compress(b'{')\<close>, which decompresses and does not parse.
\<close>

datatype json =
    JObject "(string \<times> json) list"
  | JArray "json list"
  | JString string
  | JNumber int
  | JBool bool
  | JNull

definition compressed_object :: "byte list" where
  "compressed_object = [120, 156, 171, 174, 5, 0, 1, 117, 0, 249]"

definition compressed_brace :: "byte list" where
  "compressed_brace = [120, 156, 171, 6, 0, 0, 124, 0, 124]"

text \<open>
  \<open>zlib.decompress\<close> and \<open>json.loads\<close> are tables: the two compressed texts decompress,
  the text \<open>{}\<close> parses, and every other byte sequence is taken to fail. The byte
  sequences used below that are not in the tables do fail in the library. Printing the
  news succeeds.
\<close>

definition stub :: "json lib" where
  "stub = \<lparr>b64decode_str =
             (\<lambda>s. if list_ex (\<lambda>c. 128 \<le> (of_char c :: nat)) s then Inl ValueError
                  else a2b_base64 0 0 0 s []),
           int_str =
             (\<lambda>s. if s = [] then Inl ValueError
                  else (case decimal 0 s of None \<Rightarrow> Inl ValueError | Some n \<Rightarrow> Inr (int n))),
           zlib_decompress =
             (\<lambda>bs. if bs = compressed_object then Inr [123, 125]
                   else if bs = compressed_brace then Inr [123]
                   else Inl ZlibError),
           json_loads = (\<lambda>bs. if bs = [123, 125] then Inr (JObject []) else Inl JSONDecodeError),
           print_news = (\<lambda>doc. None)\<rparr>"

text \<open>The fields of an update with \<open>FRAG_NUM = k\<close>, and of a first one with its \<open>TOT_SIZE\<close>.\<close>

definition fragment_event :: "pyval \<Rightarrow> pyval \<Rightarrow> int \<Rightarrow> string \<Rightarrow> fields" where
  "fragment_event g s k f =
     [''GUID'' \<mapsto> g, ''MRN_SRC'' \<mapsto> s, ''FRAG_NUM'' \<mapsto> PInt k, ''FRAGMENT'' \<mapsto> PStr f]"

definition first_event :: "pyval \<Rightarrow> pyval \<Rightarrow> int \<Rightarrow> string \<Rightarrow> int \<Rightarrow> fields" where
  "first_event g s k f t = (fragment_event g s k f)(''TOT_SIZE'' \<mapsto> PInt t)"

subsection \<open>Fragment sequences\<close>

text \<open>
  \<open>carries L fd g s k chunk\<close>: the update \<open>fd\<close> has GUID \<open>g\<close>, source \<open>s\<close>, a
  \<open>FRAG_NUM\<close> that reads as \<open>k\<close> and a \<open>FRAGMENT\<close> that decodes to \<open>chunk\<close>.
  \<open>declares L fd t\<close>: its \<open>TOT_SIZE\<close> reads as \<open>t\<close>.
\<close>

definition carries ::
  "('doc, 'x) lib_scheme \<Rightarrow> fields \<Rightarrow> pyval \<Rightarrow> pyval \<Rightarrow> int \<Rightarrow> byte list \<Rightarrow> bool" where
  "carries L fd g s k chunk \<longleftrightarrow>
     fd ''GUID'' = Some g \<and> fd ''MRN_SRC'' = Some s
     \<and> (case fd ''FRAG_NUM'' of None \<Rightarrow> False | Some v \<Rightarrow> py_int L v = Inr k)
     \<and> (case fd ''FRAGMENT'' of None \<Rightarrow> False | Some v \<Rightarrow> b64decode L v = Inr chunk)"

definition declares :: "('doc, 'x) lib_scheme \<Rightarrow> fields \<Rightarrow> int \<Rightarrow> bool" where
  "declares L fd t \<longleftrightarrow>
     (case fd ''TOT_SIZE'' of None \<Rightarrow> False | Some v \<Rightarrow> py_int L v = Inr t)"

text \<open>
  \<open>in_sequence L g s k fds chunks\<close>: the updates \<open>fds\<close> all have GUID \<open>g\<close> and source
  \<open>s\<close>, their fragment numbers are \<open>k, k + 1, ...\<close>, and their fragments decode to
  \<open>chunks\<close>, one each.
\<close>

fun in_sequence ::
  "('doc, 'x) lib_scheme \<Rightarrow> pyval \<Rightarrow> pyval \<Rightarrow> int \<Rightarrow> fields list \<Rightarrow> byte list list \<Rightarrow> bool"
  where
  "in_sequence L g s k [] [] = True"
| "in_sequence L g s k (fd # fds) (c # cs) =
     (carries L fd g s k c \<and> in_sequence L g s (k + 1) fds cs)"
| "in_sequence L g s k [] (c # cs) = False"
| "in_sequence L g s k (fd # fds) [] = False"

section \<open>Properties\<close>

lemmas model_defs =
  process_mrn_update_def try_block_def first_fragment_def next_fragment_def
  completed_def under_except_def decode_news_def getitem_def

lemmas event_defs =
  stub_def sextet_def compressed_object_def compressed_brace_def
  fragment_event_def first_event_def


subsection \<open>The list of envelopes\<close>

lemma guid_index_bound:
  "guid_index envs g = Some i \<Longrightarrow> i < length envs \<and> GUID (envs ! i) = g"
  by (induction envs arbitrary: i) (auto split: if_splits)

lemma guid_index_append_found:
  "guid_index envs g = Some i \<Longrightarrow> guid_index (envs @ es) g = Some i"
  by (induction envs arbitrary: i) (auto split: if_splits)

lemma guid_index_append_new:
  "guid_index envs g = None \<Longrightarrow> GUID e = g \<Longrightarrow> guid_index (envs @ [e]) g = Some (length envs)"
  by (induction envs) (auto split: if_splits)

lemma del_at_last: "del_at (length xs) (xs @ [x]) = xs"
  by (simp add: del_at_def)

lemma filter_update_other:
  "i < length xs \<Longrightarrow> \<not> P (xs ! i) \<Longrightarrow> \<not> P y \<Longrightarrow> filter P (xs[i := y]) = filter P xs"
proof (induction xs arbitrary: i)
  case Nil
  then show ?case by simp
next
  case (Cons x xs)
  then show ?case by (cases i) auto
qed

lemma filter_del_at_other:
  assumes "i < length xs" and "\<not> P (xs ! i)"
  shows "filter P (del_at i xs) = filter P xs"
proof -
  have "xs = take i xs @ xs ! i # drop (Suc i) xs"
    using assms(1) by (simp add: id_take_nth_drop)
  then have "filter P xs = filter P (take i xs) @ filter P (xs ! i # drop (Suc i) xs)"
    by (metis filter_append)
  then show ?thesis
    using assms(2) by (simp add: del_at_def)
qed

subsection \<open>Reading the fields\<close>

lemma carries_reads:
  assumes "carries L fd g s k c"
  shows "\<exists>fv nv. getitem fd ''FRAGMENT'' = Inr fv \<and> b64decode L fv = Inr c
           \<and> getitem fd ''FRAG_NUM'' = Inr nv \<and> py_int L nv = Inr k
           \<and> getitem fd ''GUID'' = Inr g \<and> getitem fd ''MRN_SRC'' = Inr s"
  using assms by (auto simp: carries_def getitem_def split: option.splits)

lemma declares_reads:
  assumes "declares L fd t"
  shows "\<exists>tv. getitem fd ''TOT_SIZE'' = Inr tv \<and> py_int L tv = Inr t"
  using assms by (auto simp: declares_def getitem_def split: option.splits)

lemma try_block_next:
  assumes "carries L fd g s k c" and "1 < k"
  shows "try_block L envs fd = next_fragment L envs c k g s"
  using carries_reads [OF assms(1)] assms(2) by (auto simp: try_block_def)

lemma try_block_first:
  assumes "carries L fd g s k c" and "k \<le> 1"
  shows "try_block L envs fd = first_fragment L envs fd c k g s"
  using carries_reads [OF assms(1)] assms(2) by (auto simp: try_block_def)

lemma in_sequence_length: "in_sequence L g s k fds cs \<Longrightarrow> length fds = length cs"
  by (induction L g s k fds cs rule: in_sequence.induct) auto

subsection \<open>Reassembly of a fragment sequence\<close>

text \<open>
  The last envelope of the list is the one of GUID \<open>g\<close>, and no earlier envelope has that
  GUID: a following fragment is merged into it, and either the envelope stays, longer by
  the chunk, or it is complete and is deleted.
\<close>

lemma merge_last_pending:
  assumes "guid_index envs g = None" and "t \<noteq> int (length (acc @ c))"
  shows "next_fragment L
           (envs @ [\<lparr>GUID = g, data = \<lparr>FRAGMENT = acc, MRN_SRC = s, FRAG_NUM = k, tot_size = t\<rparr>\<rparr>])
           c (k + 1) g s
         = (envs @ [\<lparr>GUID = g, data = \<lparr>FRAGMENT = acc @ c, MRN_SRC = s,
                                         FRAG_NUM = k + 1, tot_size = t\<rparr>\<rparr>], Pending)"
  using assms by (simp add: next_fragment_def guid_index_append_new Let_def)

lemma merge_last_completed:
  assumes "guid_index envs g = None" and "t = int (length (acc @ c))"
  shows "next_fragment L
           (envs @ [\<lparr>GUID = g, data = \<lparr>FRAGMENT = acc, MRN_SRC = s, FRAG_NUM = k, tot_size = t\<rparr>\<rparr>])
           c (k + 1) g s
         = (envs, Completed (acc @ c) (under_except (decode_news L (acc @ c))))"
  using assms
  by (simp add: next_fragment_def guid_index_append_new Let_def del_at_last completed_def)

text \<open>The fragments after the first, by induction on how many are still to come.\<close>

lemma rest_reassemble:
  assumes "in_sequence L g s (k + 1) fds cs" and "fds \<noteq> []" and "1 \<le> k"
    and "guid_index envs g = None"
    and "\<forall>j. 0 < j \<and> j < length cs \<longrightarrow> int (length (acc @ concat (take j cs))) \<noteq> t"
    and "int (length (acc @ concat cs)) = t"
  shows "on_updates L
           (envs @ [\<lparr>GUID = g, data = \<lparr>FRAGMENT = acc, MRN_SRC = s, FRAG_NUM = k, tot_size = t\<rparr>\<rparr>])
           (map (\<lambda>fd. Message (Some fd)) fds)
         = Inr (envs, replicate (length fds - 1) Pending
                      @ [Completed (acc @ concat cs)
                           (under_except (decode_news L (acc @ concat cs)))])"
  using assms
proof (induction fds arbitrary: cs acc k)
  case Nil
  then show ?case by simp
next
  case (Cons fd fds)
  then obtain c cs' where cs: "cs = c # cs'"
    by (cases cs) auto
  have car: "carries L fd g s (k + 1) c" and rest: "in_sequence L g s (k + 1 + 1) fds cs'"
    using Cons.prems(1) cs by simp_all
  have k1: "1 < k + 1" using Cons.prems(3) by simp
  show ?case
  proof (cases "fds = []")
    case True
    then have last: "cs' = []" using in_sequence_length [OF rest] by simp
    then have tc: "t = int (length (acc @ c))"
      using Cons.prems(6) cs by simp
    have step: "process_mrn_update L
           (envs @ [\<lparr>GUID = g, data = \<lparr>FRAGMENT = acc, MRN_SRC = s, FRAG_NUM = k, tot_size = t\<rparr>\<rparr>])
           (Message (Some fd))
         = Inr (envs, Completed (acc @ c) (under_except (decode_news L (acc @ c))))"
      by (simp add: process_mrn_update_def try_block_next [OF car k1]
          merge_last_completed [OF Cons.prems(4) tc])
    show ?thesis
      using True cs last by (simp add: step)
  next
    case False
    then have ne: "cs' \<noteq> []" using in_sequence_length [OF rest] by auto
    have "int (length (acc @ concat (take 1 cs))) \<noteq> t"
      using Cons.prems(5) cs ne by (auto simp del: length_append)
    then have now: "t \<noteq> int (length (acc @ c))"
      using cs by auto
    have later: "\<forall>j. 0 < j \<and> j < length cs' \<longrightarrow>
                   int (length ((acc @ c) @ concat (take j cs'))) \<noteq> t"
    proof (intro allI impI)
      fix j assume "0 < j \<and> j < length cs'"
      then have "0 < Suc j \<and> Suc j < length cs" using cs by simp
      then have "int (length (acc @ concat (take (Suc j) cs))) \<noteq> t"
        using Cons.prems(5) by blast
      then show "int (length ((acc @ c) @ concat (take j cs'))) \<noteq> t"
        using cs by simp
    qed
    have total: "int (length ((acc @ c) @ concat cs')) = t"
      using Cons.prems(6) cs by simp
    have k': "1 \<le> k + 1" using Cons.prems(3) by simp
    have ih: "on_updates L
           (envs @ [\<lparr>GUID = g, data = \<lparr>FRAGMENT = acc @ c, MRN_SRC = s,
                                        FRAG_NUM = k + 1, tot_size = t\<rparr>\<rparr>])
           (map (\<lambda>fd. Message (Some fd)) fds)
         = Inr (envs, replicate (length fds - 1) Pending
                      @ [Completed ((acc @ c) @ concat cs')
                           (under_except (decode_news L ((acc @ c) @ concat cs')))])"
      using Cons.IH [OF rest False k' Cons.prems(4) later total] .
    have rep: "Pending # replicate (length fds - 1) Pending
               = replicate (length fds) (Pending :: 'a outcome)"
      using False by (cases fds) auto
    have step: "process_mrn_update L
           (envs @ [\<lparr>GUID = g, data = \<lparr>FRAGMENT = acc, MRN_SRC = s, FRAG_NUM = k, tot_size = t\<rparr>\<rparr>])
           (Message (Some fd))
         = Inr (envs @ [\<lparr>GUID = g, data = \<lparr>FRAGMENT = acc @ c, MRN_SRC = s,
                                             FRAG_NUM = k + 1, tot_size = t\<rparr>\<rparr>], Pending)"
      by (simp add: process_mrn_update_def try_block_next [OF car k1]
          merge_last_pending [OF Cons.prems(4) now])
    show ?thesis
      using cs rep by (simp add: step ih)
  qed
qed

text \<open>
  The claim as the specification states it fails on the code when the list already holds
  an envelope of the same GUID. Two fragments of a message that is never finished leave
  such an envelope; a later, complete two-fragment message of that GUID then has its
  first fragment appended as a second envelope, and its second fragment is compared with
  the old envelope, found first by the lookup, and refused.
\<close>

theorem fragments_after_stale_envelope_counterexample:
  "on_updates stub []
     [Message (Some (first_event (PStr ''g1'') (PStr ''src'') 1 ''YWI='' 9)),
      Message (Some (fragment_event (PStr ''g1'') (PStr ''src'') 2 ''Y2Q=''))]
   = Inr ([\<lparr>GUID = PStr ''g1'',
            data = \<lparr>FRAGMENT = [97, 98, 99, 100], MRN_SRC = PStr ''src'',
                    FRAG_NUM = 2, tot_size = 9\<rparr>\<rparr>],
          [Pending, Pending])
   \<and> in_sequence stub (PStr ''g1'') (PStr ''src'') 1
        [first_event (PStr ''g1'') (PStr ''src'') 1 ''d3g='' 4,
         fragment_event (PStr ''g1'') (PStr ''src'') 2 ''eXo='']
        [[119, 120], [121, 122]]
   \<and> declares stub (first_event (PStr ''g1'') (PStr ''src'') 1 ''d3g='' 4) 4
   \<and> on_updates stub
        [\<lparr>GUID = PStr ''g1'',
          data = \<lparr>FRAGMENT = [97, 98, 99, 100], MRN_SRC = PStr ''src'',
                  FRAG_NUM = 2, tot_size = 9\<rparr>\<rparr>]
        [Message (Some (first_event (PStr ''g1'') (PStr ''src'') 1 ''d3g='' 4)),
         Message (Some (fragment_event (PStr ''g1'') (PStr ''src'') 2 ''eXo=''))]
      = Inr ([\<lparr>GUID = PStr ''g1'',
               data = \<lparr>FRAGMENT = [97, 98, 99, 100], MRN_SRC = PStr ''src'',
                       FRAG_NUM = 2, tot_size = 9\<rparr>\<rparr>,
              \<lparr>GUID = PStr ''g1'',
               data = \<lparr>FRAGMENT = [119, 120], MRN_SRC = PStr ''src'',
                       FRAG_NUM = 1, tot_size = 4\<rparr>\<rparr>],
             [Pending, Rejected OutOfSequence])"
  by (simp add: model_defs event_defs carries_def declares_def)

text \<open>
  Claim C1, as the code has it. Let \<open>F1..Fn\<close> be updates with the same GUID and source,
  fragment numbers \<open>1..n\<close>, \<open>TOT_SIZE\<close> read from \<open>F1\<close>, every proper prefix of the decoded
  chunks shorter than \<open>TOT_SIZE\<close> and all chunks together exactly \<open>TOT_SIZE\<close> long. If,
  when \<open>n > 1\<close>, the list holds no envelope of that GUID when \<open>F1\<close> arrives, then the calls
  for \<open>F1..F(n-1)\<close> are pending, the call for \<open>Fn\<close> enters the final block with the chunks
  concatenated in order, and the list of envelopes ends as it began.
\<close>

theorem fragments_reassemble:
  assumes "in_sequence L g s 1 (fd # fds) chunks"
    and "declares L fd t"
    and "\<forall>j. 0 < j \<and> j < length chunks \<longrightarrow> int (length (concat (take j chunks))) < t"
    and "int (length (concat chunks)) = t"
    and "guid_index envs g = None \<or> fds = []"
  shows "on_updates L envs (map (\<lambda>fd. Message (Some fd)) (fd # fds))
         = Inr (envs, replicate (length fds) Pending
                      @ [Completed (concat chunks)
                           (under_except (decode_news L (concat chunks)))])"
proof -
  obtain c cs where chunks: "chunks = c # cs"
    using assms(1) by (cases chunks) auto
  have car: "carries L fd g s 1 c" and rest: "in_sequence L g s (1 + 1) fds cs"
    using assms(1) chunks by simp_all
  obtain tv where tv: "getitem fd ''TOT_SIZE'' = Inr tv" "py_int L tv = Inr t"
    using declares_reads [OF assms(2)] by blast
  show ?thesis
  proof (cases "fds = []")
    case True
    then have last: "cs = []" using in_sequence_length [OF rest] by simp
    then have "t = int (length c)"
      using assms(4) chunks by simp
    then have step: "process_mrn_update L envs (Message (Some fd))
         = Inr (envs, Completed c (under_except (decode_news L c)))"
      using try_block_first [OF car] tv
      by (simp add: process_mrn_update_def first_fragment_def completed_def)
    show ?thesis
      using True chunks last by (simp add: step)
  next
    case False
    then have ne: "cs \<noteq> []" using in_sequence_length [OF rest] by auto
    have absent: "guid_index envs g = None" using assms(5) False by simp
    have "int (length (concat (take 1 chunks))) < t"
      using assms(3) chunks ne by auto
    then have first: "t \<noteq> int (length c)" using chunks by simp
    have later: "\<forall>j. 0 < j \<and> j < length cs \<longrightarrow> int (length (c @ concat (take j cs))) \<noteq> t"
    proof (intro allI impI)
      fix j assume "0 < j \<and> j < length cs"
      then have "0 < Suc j \<and> Suc j < length chunks" using chunks by simp
      then have "int (length (concat (take (Suc j) chunks))) < t"
        using assms(3) by blast
      then show "int (length (c @ concat (take j cs))) \<noteq> t"
        using chunks by simp
    qed
    have total: "int (length (c @ concat cs)) = t"
      using assms(4) chunks by simp
    have tail: "on_updates L
           (envs @ [\<lparr>GUID = g, data = \<lparr>FRAGMENT = c, MRN_SRC = s, FRAG_NUM = 1, tot_size = t\<rparr>\<rparr>])
           (map (\<lambda>fd. Message (Some fd)) fds)
         = Inr (envs, replicate (length fds - 1) Pending
                      @ [Completed (c @ concat cs)
                           (under_except (decode_news L (c @ concat cs)))])"
      using rest_reassemble [OF rest False _ absent later total] by simp
    have rep: "Pending # replicate (length fds - 1) Pending
               = replicate (length fds) (Pending :: 'a outcome)"
      using False by (cases fds) auto
    have step: "process_mrn_update L envs (Message (Some fd))
         = Inr (envs @ [\<lparr>GUID = g, data = \<lparr>FRAGMENT = c, MRN_SRC = s,
                                             FRAG_NUM = 1, tot_size = t\<rparr>\<rparr>], Pending)"
      using try_block_first [OF car] tv first
      by (simp add: process_mrn_update_def first_fragment_def)
    show ?thesis
      using chunks rep by (simp add: step tail)
  qed
qed

text \<open>
  The ten bytes of \<open>zlib.compress(b'{}')\<close> in three fragments of three, three and four
  bytes, arriving while an envelope of another GUID is waiting.
\<close>

theorem fragments_reassemble_witness:
  "in_sequence stub (PStr ''g1'') (PStr ''src'') 1
     [first_event (PStr ''g1'') (PStr ''src'') 1 ''eJyr'' 10,
      fragment_event (PStr ''g1'') (PStr ''src'') 2 ''rgUA'',
      fragment_event (PStr ''g1'') (PStr ''src'') 3 ''AXUA+Q=='']
     [[120, 156, 171], [174, 5, 0], [1, 117, 0, 249]]
   \<and> declares stub (first_event (PStr ''g1'') (PStr ''src'') 1 ''eJyr'' 10) 10
   \<and> guid_index
        [\<lparr>GUID = PStr ''g0'',
          data = \<lparr>FRAGMENT = [1], MRN_SRC = PStr ''src'', FRAG_NUM = 1, tot_size = 7\<rparr>\<rparr>]
        (PStr ''g1'') = None
   \<and> on_updates stub
        [\<lparr>GUID = PStr ''g0'',
          data = \<lparr>FRAGMENT = [1], MRN_SRC = PStr ''src'', FRAG_NUM = 1, tot_size = 7\<rparr>\<rparr>]
        [Message (Some (first_event (PStr ''g1'') (PStr ''src'') 1 ''eJyr'' 10)),
         Message (Some (fragment_event (PStr ''g1'') (PStr ''src'') 2 ''rgUA'')),
         Message (Some (fragment_event (PStr ''g1'') (PStr ''src'') 3 ''AXUA+Q==''))]
      = Inr ([\<lparr>GUID = PStr ''g0'',
               data = \<lparr>FRAGMENT = [1], MRN_SRC = PStr ''src'', FRAG_NUM = 1, tot_size = 7\<rparr>\<rparr>],
             [Pending, Pending,
              Completed [120, 156, 171, 174, 5, 0, 1, 117, 0, 249] (Inr (JObject []))])"
proof -
  let ?f1 = "first_event (PStr ''g1'') (PStr ''src'') 1 ''eJyr'' 10"
  let ?f2 = "fragment_event (PStr ''g1'') (PStr ''src'') 2 ''rgUA''"
  let ?f3 = "fragment_event (PStr ''g1'') (PStr ''src'') 3 ''AXUA+Q==''"
  let ?chunks = "[[120, 156, 171], [174, 5, 0], [1, 117, 0, 249]] :: byte list list"
  let ?envs = "[\<lparr>GUID = PStr ''g0'',
                 data = \<lparr>FRAGMENT = [1], MRN_SRC = PStr ''src'', FRAG_NUM = 1, tot_size = 7\<rparr>\<rparr>]"
  have h1: "in_sequence stub (PStr ''g1'') (PStr ''src'') 1 (?f1 # [?f2, ?f3]) ?chunks"
    by (simp add: carries_def event_defs)
  have h2: "declares stub ?f1 10"
    by (simp add: declares_def event_defs)
  have h3: "\<forall>j. 0 < j \<and> j < length ?chunks \<longrightarrow> int (length (concat (take j ?chunks))) < 10"
  proof (intro allI impI)
    fix j :: nat assume "0 < j \<and> j < length ?chunks"
    then have "j = 1 \<or> j = 2" by auto
    then show "int (length (concat (take j ?chunks))) < 10" by auto
  qed
  have h4: "int (length (concat ?chunks)) = 10"
    by simp
  have h5: "guid_index ?envs (PStr ''g1'') = None"
    by simp
  have "on_updates stub ?envs (map (\<lambda>fd. Message (Some fd)) (?f1 # [?f2, ?f3]))
        = Inr (?envs, replicate (length [?f2, ?f3]) Pending
                 @ [Completed (concat ?chunks) (under_except (decode_news stub (concat ?chunks)))])"
    using fragments_reassemble [OF h1 h2 h3 h4 disjI1 [OF h5]] .
  moreover have "under_except (decode_news stub (concat ?chunks)) = Inr (JObject [])"
    by (simp add: under_except_def decode_news_def event_defs)
  ultimately have run: "on_updates stub ?envs [Message (Some ?f1), Message (Some ?f2), Message (Some ?f3)]
        = Inr (?envs, [Pending, Pending,
                       Completed [120, 156, 171, 174, 5, 0, 1, 117, 0, 249] (Inr (JObject []))])"
    by (simp add: numeral_2_eq_2)
  show ?thesis
    using h1 h2 h5 run by simp
qed

subsection \<open>A message in one fragment\<close>

text \<open>
  Claim C2. An update with fragment number 1 whose decoded chunk is exactly as long as its
  \<open>TOT_SIZE\<close> is complete at once: the call enters the final block with that chunk, and
  the list of envelopes is what it was, so no envelope is created for the GUID.
\<close>

theorem single_fragment_completes:
  assumes "carries L fd g s 1 chunk" and "declares L fd (int (length chunk))"
  shows "process_mrn_update L envs (Message (Some fd))
         = Inr (envs, Completed chunk (under_except (decode_news L chunk)))"
proof -
  obtain tv where "getitem fd ''TOT_SIZE'' = Inr tv" "py_int L tv = Inr (int (length chunk))"
    using declares_reads [OF assms(2)] by blast
  then show ?thesis
    using try_block_first [OF assms(1)]
    by (simp add: process_mrn_update_def first_fragment_def completed_def)
qed

theorem single_fragment_completes_witness:
  "carries stub (first_event (PStr ''g1'') (PStr ''src'') 1 ''eJyrrgUAAXUA+Q=='' 10)
     (PStr ''g1'') (PStr ''src'') 1 [120, 156, 171, 174, 5, 0, 1, 117, 0, 249]
   \<and> declares stub (first_event (PStr ''g1'') (PStr ''src'') 1 ''eJyrrgUAAXUA+Q=='' 10) 10
   \<and> process_mrn_update stub
        [\<lparr>GUID = PStr ''g0'',
          data = \<lparr>FRAGMENT = [1], MRN_SRC = PStr ''src'', FRAG_NUM = 1, tot_size = 7\<rparr>\<rparr>]
        (Message (Some (first_event (PStr ''g1'') (PStr ''src'') 1 ''eJyrrgUAAXUA+Q=='' 10)))
      = Inr ([\<lparr>GUID = PStr ''g0'',
               data = \<lparr>FRAGMENT = [1], MRN_SRC = PStr ''src'', FRAG_NUM = 1, tot_size = 7\<rparr>\<rparr>],
             Completed [120, 156, 171, 174, 5, 0, 1, 117, 0, 249] (Inr (JObject [])))"
proof -
  let ?fd = "first_event (PStr ''g1'') (PStr ''src'') 1 ''eJyrrgUAAXUA+Q=='' 10"
  let ?bs = "[120, 156, 171, 174, 5, 0, 1, 117, 0, 249] :: byte list"
  have h1: "carries stub ?fd (PStr ''g1'') (PStr ''src'') 1 ?bs"
    by (simp add: carries_def event_defs)
  have h2: "declares stub ?fd (int (length ?bs))"
    by (simp add: declares_def event_defs)
  have "under_except (decode_news stub ?bs) = Inr (JObject [])"
    by (simp add: under_except_def decode_news_def event_defs)
  then show ?thesis
    using h1 h2 single_fragment_completes [OF h1 h2] by simp
qed

subsection \<open>A first fragment for a GUID that already has an envelope\<close>

text \<open>
  The claim as the specification states it fails on the code: a second first fragment for
  a GUID does not replace the envelope already stored for it. After two incomplete first
  fragments of the same GUID the list holds two envelopes of that GUID.
\<close>

theorem two_envelopes_one_guid_counterexample:
  "on_updates stub []
     [Message (Some (first_event (PStr ''g1'') (PStr ''src'') 1 ''YWI='' 9)),
      Message (Some (first_event (PStr ''g1'') (PStr ''src'') 1 ''d3g='' 4))]
   = Inr ([\<lparr>GUID = PStr ''g1'',
            data = \<lparr>FRAGMENT = [97, 98], MRN_SRC = PStr ''src'', FRAG_NUM = 1, tot_size = 9\<rparr>\<rparr>,
           \<lparr>GUID = PStr ''g1'',
            data = \<lparr>FRAGMENT = [119, 120], MRN_SRC = PStr ''src'', FRAG_NUM = 1, tot_size = 4\<rparr>\<rparr>],
          [Pending, Pending])
   \<and> \<not> distinct [PStr ''g1'', PStr ''g1'']"
  by (simp add: model_defs event_defs)

text \<open>
  Claim C3, as the code has it. When an update with fragment number 1 and a chunk whose
  length differs from \<open>TOT_SIZE\<close> arrives for a GUID that already has an envelope, the new
  envelope is appended at the end of the list and the earlier one stays where it was: the
  list then holds both, and the lookup by GUID still finds the earlier one.
\<close>

theorem restart_keeps_stale_envelope:
  assumes "carries L fd g s 1 chunk" and "declares L fd tot"
    and "tot \<noteq> int (length chunk)"
    and "guid_index envs g = Some i"
  shows "process_mrn_update L envs (Message (Some fd))
         = Inr (envs @ [\<lparr>GUID = g, data = \<lparr>FRAGMENT = chunk, MRN_SRC = s,
                                             FRAG_NUM = 1, tot_size = tot\<rparr>\<rparr>], Pending)
         \<and> guid_index
             (envs @ [\<lparr>GUID = g, data = \<lparr>FRAGMENT = chunk, MRN_SRC = s,
                                           FRAG_NUM = 1, tot_size = tot\<rparr>\<rparr>]) g = Some i
         \<and> i < length envs
         \<and> \<not> distinct (map GUID
                 (envs @ [\<lparr>GUID = g, data = \<lparr>FRAGMENT = chunk, MRN_SRC = s,
                                               FRAG_NUM = 1, tot_size = tot\<rparr>\<rparr>]))"
proof -
  obtain tv where tv: "getitem fd ''TOT_SIZE'' = Inr tv" "py_int L tv = Inr tot"
    using declares_reads [OF assms(2)] by blast
  have i: "i < length envs" "GUID (envs ! i) = g"
    using guid_index_bound [OF assms(4)] by simp_all
  then have "g \<in> GUID ` set envs"
    by (metis imageI nth_mem)
  then show ?thesis
    using tv i assms(3) try_block_first [OF assms(1)] guid_index_append_found [OF assms(4)]
    by (simp add: process_mrn_update_def first_fragment_def)
qed

theorem restart_keeps_stale_envelope_witness:
  "carries stub (first_event (PStr ''g1'') (PStr ''src'') 1 ''d3g='' 4)
     (PStr ''g1'') (PStr ''src'') 1 [119, 120]
   \<and> declares stub (first_event (PStr ''g1'') (PStr ''src'') 1 ''d3g='' 4) 4
   \<and> guid_index
        [\<lparr>GUID = PStr ''g1'',
          data = \<lparr>FRAGMENT = [97, 98], MRN_SRC = PStr ''src'', FRAG_NUM = 1, tot_size = 9\<rparr>\<rparr>]
        (PStr ''g1'') = Some 0
   \<and> process_mrn_update stub
        [\<lparr>GUID = PStr ''g1'',
          data = \<lparr>FRAGMENT = [97, 98], MRN_SRC = PStr ''src'', FRAG_NUM = 1, tot_size = 9\<rparr>\<rparr>]
        (Message (Some (first_event (PStr ''g1'') (PStr ''src'') 1 ''d3g='' 4)))
      = Inr ([\<lparr>GUID = PStr ''g1'',
               data = \<lparr>FRAGMENT = [97, 98], MRN_SRC = PStr ''src'', FRAG_NUM = 1, tot_size = 9\<rparr>\<rparr>,
              \<lparr>GUID = PStr ''g1'',
               data = \<lparr>FRAGMENT = [119, 120], MRN_SRC = PStr ''src'', FRAG_NUM = 1, tot_size = 4\<rparr>\<rparr>],
             Pending)"
proof -
  let ?fd = "first_event (PStr ''g1'') (PStr ''src'') 1 ''d3g='' 4"
  let ?envs = "[\<lparr>GUID = PStr ''g1'',
                 data = \<lparr>FRAGMENT = [97, 98], MRN_SRC = PStr ''src'', FRAG_NUM = 1, tot_size = 9\<rparr>\<rparr>]"
  have h1: "carries stub ?fd (PStr ''g1'') (PStr ''src'') 1 [119, 120]"
    by (simp add: carries_def event_defs)
  have h2: "declares stub ?fd 4"
    by (simp add: declares_def event_defs)
  have h3: "(4 :: int) \<noteq> int (length [119, 120 :: byte])"
    by simp
  have h4: "guid_index ?envs (PStr ''g1'') = Some 0"
    by simp
  show ?thesis
    using h1 h2 h4 restart_keeps_stale_envelope [OF h1 h2 h3 h4] by simp
qed

subsection \<open>More bytes than declared\<close>

text \<open>
  The claim as the specification states it fails on the code: the merge only tests
  \<open>tot_size != len(fragment)\<close>. A second fragment that takes the envelope from three
  bytes to seven, with five declared, is merged; the call is pending, and the envelope
  stays in the list with its seven bytes.
\<close>

theorem overlong_envelope_counterexample:
  "on_updates stub []
     [Message (Some (first_event (PStr ''g1'') (PStr ''src'') 1 ''YWJj'' 5)),
      Message (Some (fragment_event (PStr ''g1'') (PStr ''src'') 2 ''ZGVmZw==''))]
   = Inr ([\<lparr>GUID = PStr ''g1'',
            data = \<lparr>FRAGMENT = [97, 98, 99, 100, 101, 102, 103], MRN_SRC = PStr ''src'',
                    FRAG_NUM = 2, tot_size = 5\<rparr>\<rparr>],
          [Pending, Pending])
   \<and> \<not> int (length [97, 98, 99, 100, 101, 102, 103 :: byte]) \<le> 5"
  by (simp add: model_defs event_defs)

text \<open>
  Claim C4, as the code has it. When an update with fragment number above 1 matches the
  envelope of its GUID in source and in sequence, and its chunk makes the accumulated
  bytes longer than the stored \<open>tot_size\<close>, the chunk is merged and the fragment number
  stored, the call is pending, and the envelope stays in the list, longer than its
  \<open>tot_size\<close>.
\<close>

theorem overlong_merge_stays_pending:
  assumes "carries L fd g s k chunk" and "1 < k"
    and "guid_index envs g = Some i"
    and "MRN_SRC (data (envs ! i)) = s" and "k = FRAG_NUM (data (envs ! i)) + 1"
    and "tot_size (data (envs ! i)) < int (length (FRAGMENT (data (envs ! i)) @ chunk))"
  shows "process_mrn_update L envs (Message (Some fd))
         = Inr (envs[i := (envs ! i)\<lparr>data := (data (envs ! i))
                             \<lparr>FRAGMENT := FRAGMENT (data (envs ! i)) @ chunk, FRAG_NUM := k\<rparr>\<rparr>],
                Pending)"
  using assms(3-6)
  by (simp add: process_mrn_update_def try_block_next [OF assms(1,2)] next_fragment_def Let_def)

theorem overlong_merge_stays_pending_witness:
  "carries stub (fragment_event (PStr ''g1'') (PStr ''src'') 2 ''ZGVmZw=='')
     (PStr ''g1'') (PStr ''src'') 2 [100, 101, 102, 103]
   \<and> guid_index
        [\<lparr>GUID = PStr ''g1'',
          data = \<lparr>FRAGMENT = [97, 98, 99], MRN_SRC = PStr ''src'', FRAG_NUM = 1, tot_size = 5\<rparr>\<rparr>]
        (PStr ''g1'') = Some 0
   \<and> process_mrn_update stub
        [\<lparr>GUID = PStr ''g1'',
          data = \<lparr>FRAGMENT = [97, 98, 99], MRN_SRC = PStr ''src'', FRAG_NUM = 1, tot_size = 5\<rparr>\<rparr>]
        (Message (Some (fragment_event (PStr ''g1'') (PStr ''src'') 2 ''ZGVmZw=='')))
      = Inr ([\<lparr>GUID = PStr ''g1'',
               data = \<lparr>FRAGMENT = [97, 98, 99, 100, 101, 102, 103], MRN_SRC = PStr ''src'',
                       FRAG_NUM = 2, tot_size = 5\<rparr>\<rparr>],
             Pending)"
proof -
  let ?fd = "fragment_event (PStr ''g1'') (PStr ''src'') 2 ''ZGVmZw==''"
  let ?envs = "[\<lparr>GUID = PStr ''g1'',
                 data = \<lparr>FRAGMENT = [97, 98, 99], MRN_SRC = PStr ''src'',
                         FRAG_NUM = 1, tot_size = 5\<rparr>\<rparr>]"
  have h1: "carries stub ?fd (PStr ''g1'') (PStr ''src'') 2 [100, 101, 102, 103]"
    by (simp add: carries_def event_defs)
  have h2: "(1 :: int) < 2"
    by simp
  have h3: "guid_index ?envs (PStr ''g1'') = Some 0"
    by simp
  have h4: "MRN_SRC (data (?envs ! 0)) = PStr ''src''"
    by simp
  have h5: "(2 :: int) = FRAG_NUM (data (?envs ! 0)) + 1"
    by simp
  have h6: "tot_size (data (?envs ! 0))
            < int (length (FRAGMENT (data (?envs ! 0)) @ [100, 101, 102, 103]))"
    by simp
  show ?thesis
    using h1 h3 overlong_merge_stays_pending [OF h1 h2 h3 h4 h5 h6] by simp
qed

subsection \<open>A following fragment that does not fit\<close>

text \<open>
  When the envelope of the GUID exists but its source or its fragment number does not fit
  the update, the \<open>else\<close> branch reports the out-of-sequence error and the list is
  untouched.
\<close>

lemma mismatch_rejected:
  assumes "carries L fd g s k chunk" and "1 < k"
    and "guid_index envs g = Some i"
    and "MRN_SRC (data (envs ! i)) \<noteq> s \<or> k \<noteq> FRAG_NUM (data (envs ! i)) + 1"
  shows "process_mrn_update L envs (Message (Some fd)) = Inr (envs, Rejected OutOfSequence)"
  using assms(3,4)
  by (auto simp: process_mrn_update_def try_block_next [OF assms(1,2)] next_fragment_def Let_def)

text \<open>
  Claim C5 does not hold on the code for a GUID without an envelope. The lookup yields
  \<open>None\<close>, \<open>_news_envelopes[None]\<close> raises \<open>TypeError\<close> before the test
  \<open>if envelop and ...\<close> is reached, and the final \<open>except Exception\<close> catches it: the
  list is untouched, but the call reports the generic exception and not the
  out-of-sequence error that the \<open>else\<close> branch was written to print.
\<close>

theorem absent_guid_caught_as_TypeError:
  assumes "carries L fd g s k chunk" and "1 < k" and "guid_index envs g = None"
  shows "process_mrn_update L envs (Message (Some fd)) = Inr (envs, Rejected (CatchAll TypeError))"
  using assms(3)
  by (simp add: process_mrn_update_def try_block_next [OF assms(1,2)] next_fragment_def)

theorem absent_guid_caught_as_TypeError_witness:
  "carries stub (fragment_event (PStr ''g1'') (PStr ''src'') 2 ''YWI='')
     (PStr ''g1'') (PStr ''src'') 2 [97, 98]
   \<and> guid_index [] (PStr ''g1'') = None
   \<and> process_mrn_update stub []
        (Message (Some (fragment_event (PStr ''g1'') (PStr ''src'') 2 ''YWI='')))
      = Inr ([], Rejected (CatchAll TypeError))
   \<and> Rejected (CatchAll TypeError) \<noteq> (Rejected OutOfSequence :: json outcome)"
proof -
  let ?fd = "fragment_event (PStr ''g1'') (PStr ''src'') 2 ''YWI=''"
  have h1: "carries stub ?fd (PStr ''g1'') (PStr ''src'') 2 [97, 98]"
    by (simp add: carries_def event_defs)
  have h2: "(1 :: int) < 2"
    by simp
  have h3: "guid_index [] (PStr ''g1'') = None"
    by simp
  show ?thesis
    using h1 h3 absent_guid_caught_as_TypeError [OF h1 h2 h3] by simp
qed

subsection \<open>A fragment that does not decode\<close>

text \<open>
  The claim as the specification states it fails on the code: not every failing decode
  raises \<open>binascii.Error\<close>. A \<open>FRAGMENT\<close> that is not a string raises \<open>TypeError\<close>, and a
  string with a character that is not ASCII raises \<open>ValueError\<close>; both are caught by the
  final \<open>except Exception\<close>, not by the clause for \<open>binascii.Error\<close>.
\<close>

theorem failed_decode_is_catch_all_counterexample:
  "process_mrn_update stub
     [\<lparr>GUID = PStr ''g1'',
       data = \<lparr>FRAGMENT = [1, 2], MRN_SRC = PStr ''src'', FRAG_NUM = 1, tot_size = 5\<rparr>\<rparr>]
     (Message (Some [''GUID'' \<mapsto> PStr ''g1'', ''MRN_SRC'' \<mapsto> PStr ''src'',
                     ''FRAG_NUM'' \<mapsto> PInt 2, ''FRAGMENT'' \<mapsto> PInt 5]))
   = Inr ([\<lparr>GUID = PStr ''g1'',
            data = \<lparr>FRAGMENT = [1, 2], MRN_SRC = PStr ''src'', FRAG_NUM = 1, tot_size = 5\<rparr>\<rparr>],
          Rejected (CatchAll TypeError))
   \<and> process_mrn_update stub
     [\<lparr>GUID = PStr ''g1'',
       data = \<lparr>FRAGMENT = [1, 2], MRN_SRC = PStr ''src'', FRAG_NUM = 1, tot_size = 5\<rparr>\<rparr>]
     (Message (Some (fragment_event (PStr ''g1'') (PStr ''src'') 2 [CHR 0xE9])))
   = Inr ([\<lparr>GUID = PStr ''g1'',
            data = \<lparr>FRAGMENT = [1, 2], MRN_SRC = PStr ''src'', FRAG_NUM = 1, tot_size = 5\<rparr>\<rparr>],
          Rejected (CatchAll ValueError))
   \<and> Rejected (CatchAll TypeError) \<noteq> (Rejected DecodeError :: json outcome)
   \<and> Rejected (CatchAll ValueError) \<noteq> (Rejected DecodeError :: json outcome)"
  by (simp add: process_mrn_update_def try_block_def getitem_def event_defs)

text \<open>
  Claim C6, as the code has it. When the base64 decode of the \<open>FRAGMENT\<close> field fails, the
  list of envelopes is exactly what it was (no envelope of any GUID is created, changed
  or removed), and the update is rejected by the \<open>except\<close> clause that catches the
  decoder's exception: the base64 clause (\<open>DecodeError\<close>) when it raises
  \<open>binascii.Error\<close>, that is, on malformed base64 text; the final \<open>except Exception\<close> when it
  raises \<open>ValueError\<close> (a string that is not ASCII) or \<open>TypeError\<close> (a value that is not a
  string).
\<close>

theorem failed_decode_rejected:
  assumes "fd ''FRAGMENT'' = Some v" and "b64decode L v = Inl e"
  shows "process_mrn_update L envs (Message (Some fd)) = Inr (envs, Rejected (handler e))
         \<and> (e = BinasciiError \<longrightarrow> handler e = DecodeError)
         \<and> (e = ValueError \<or> e = TypeError \<longrightarrow> handler e = CatchAll e)"
  using assms by (auto simp: process_mrn_update_def try_block_def getitem_def)

text \<open>
  A second fragment whose text is the single character \<open>a\<close>, which is not base64, arriving
  for a waiting envelope.
\<close>

theorem failed_decode_rejected_witness:
  "fragment_event (PStr ''g1'') (PStr ''src'') 2 ''a'' ''FRAGMENT'' = Some (PStr ''a'')
   \<and> b64decode stub (PStr ''a'') = Inl BinasciiError
   \<and> process_mrn_update stub
        [\<lparr>GUID = PStr ''g1'',
          data = \<lparr>FRAGMENT = [1, 2], MRN_SRC = PStr ''src'', FRAG_NUM = 1, tot_size = 5\<rparr>\<rparr>]
        (Message (Some (fragment_event (PStr ''g1'') (PStr ''src'') 2 ''a'')))
      = Inr ([\<lparr>GUID = PStr ''g1'',
               data = \<lparr>FRAGMENT = [1, 2], MRN_SRC = PStr ''src'', FRAG_NUM = 1, tot_size = 5\<rparr>\<rparr>],
             Rejected DecodeError)"
proof -
  have h1: "fragment_event (PStr ''g1'') (PStr ''src'') 2 ''a'' ''FRAGMENT'' = Some (PStr ''a'')"
    by (simp add: fragment_event_def)
  have h2: "b64decode stub (PStr ''a'') = Inl BinasciiError"
    by (simp add: event_defs)
  show ?thesis
    using h1 h2
      failed_decode_rejected [of "fragment_event (PStr ''g1'') (PStr ''src'') 2 ''a''"
        "PStr ''a''" stub BinasciiError]
    by simp
qed

subsection \<open>Which errors stay inside the call\<close>

text \<open>
  Whatever a call inside the \<open>try\<close> does, the envelopes of the other GUIDs are in the list
  as before and in the same order, and the final test \<open>tot_size == len(fragment)\<close> is
  never false where it is reached.
\<close>

lemma next_fragment_others:
  assumes "next_fragment L envs fragment k g s = (envs', out)"
  shows "filter (\<lambda>d. GUID d \<noteq> g) envs' = filter (\<lambda>d. GUID d \<noteq> g) envs \<and> out \<noteq> Dropped"
proof (cases "guid_index envs g")
  case None
  then show ?thesis using assms by (auto simp: next_fragment_def)
next
  case (Some i)
  then have i: "i < length envs" "GUID (envs ! i) = g"
    using guid_index_bound by blast+
  show ?thesis
    using assms Some i
    by (auto simp: next_fragment_def Let_def filter_update_other filter_del_at_other
        completed_def split: if_splits)
qed

lemma first_fragment_others:
  assumes "first_fragment L envs fd fragment k g s = (envs', out)"
  shows "filter (\<lambda>d. GUID d \<noteq> g) envs' = filter (\<lambda>d. GUID d \<noteq> g) envs \<and> out \<noteq> Dropped"
  using assms
  by (auto simp: first_fragment_def completed_def split: sum.splits if_splits)

lemma try_block_others:
  assumes "try_block L envs fd = (envs', out)"
  shows "out \<noteq> Dropped \<and>
         (case fd ''GUID'' of
            None \<Rightarrow> envs' = envs
          | Some g \<Rightarrow> filter (\<lambda>d. GUID d \<noteq> g) envs' = filter (\<lambda>d. GUID d \<noteq> g) envs)"
  using assms next_fragment_others first_fragment_others
  by (fastforce simp: try_block_def getitem_def split: sum.splits option.splits if_splits)

text \<open>
  A field missing from the mapping is a \<open>KeyError\<close> inside the \<open>try\<close>, caught by the
  clause \<open>except KeyError\<close>.
\<close>

lemma missing_field_caught:
  assumes "fd ''FRAGMENT'' = None"
  shows "process_mrn_update L envs (Message (Some fd)) = Inr (envs, Rejected KeyErrorCaught)"
  using assms by (simp add: process_mrn_update_def try_block_def getitem_def)

text \<open>
  Claim C7 does not hold on the code. \<open>message_json['Fields']\<close> is read on line 43, before
  the \<open>try\<close>: for an update without that entry the \<open>KeyError\<close> is caught by no clause and
  leaves the function, whatever the list of envelopes and the library.
\<close>

theorem missing_Fields_propagates:
  "process_mrn_update L envs (Message None) = Inl KeyError"
  by (simp add: process_mrn_update_def)

subsection \<open>Failures of the final block\<close>

text \<open>
  The claim as the specification states it fails on the code: there is no \<open>except\<close>
  clause for a failure of \<open>json.loads\<close>. A complete message in one fragment, the nine
  bytes of \<open>zlib.compress(b'{')\<close>, decompresses to a text that does not parse, and the
  failure is caught by the final \<open>except Exception\<close>.
\<close>

theorem parse_failure_is_catch_all_counterexample:
  "process_mrn_update stub []
     (Message (Some (first_event (PStr ''g1'') (PStr ''src'') 1 ''eJyrBgAAfAB8'' 9)))
   = Inr ([], Completed [120, 156, 171, 6, 0, 0, 124, 0, 124] (Inl (CatchAll JSONDecodeError)))
   \<and> handler JSONDecodeError = CatchAll JSONDecodeError
   \<and> handler UnicodeDecodeError = CatchAll UnicodeDecodeError"
  by (simp add: model_defs event_defs)

text \<open>
  Claim C8, as the code has it. In the final block a failure of the decompression
  (\<open>zlib.error\<close>) is caught by its own clause and reported as a decompression error; a
  failure to parse the decompressed bytes (\<open>JSONDecodeError\<close>, or \<open>UnicodeDecodeError\<close>
  for bytes that are not UTF-8) has no clause of its own and is caught by the final
  \<open>except Exception\<close>, which reports the class of the exception.
\<close>

theorem decode_failures_by_clause:
  "(zlib_decompress L bs = Inl ZlibError \<longrightarrow>
      completed L (int (length bs)) bs = Completed bs (Inl DecompressionError))
   \<and> (\<forall>d e. zlib_decompress L bs = Inr d \<and> json_loads L d = Inl e
          \<and> (e = JSONDecodeError \<or> e = UnicodeDecodeError) \<longrightarrow>
        completed L (int (length bs)) bs = Completed bs (Inl (CatchAll e)))"
  by (auto simp: completed_def under_except_def decode_news_def)

theorem decode_failures_by_clause_witness:
  "zlib_decompress stub [97, 98, 99] = Inl ZlibError
   \<and> completed stub (int (length [97, 98, 99 :: byte])) [97, 98, 99]
      = Completed [97, 98, 99] (Inl DecompressionError)
   \<and> zlib_decompress stub [120, 156, 171, 6, 0, 0, 124, 0, 124] = Inr [123]
   \<and> json_loads stub [123] = Inl JSONDecodeError
   \<and> completed stub (int (length [120, 156, 171, 6, 0, 0, 124, 0, 124 :: byte]))
        [120, 156, 171, 6, 0, 0, 124, 0, 124]
      = Completed [120, 156, 171, 6, 0, 0, 124, 0, 124] (Inl (CatchAll JSONDecodeError))"
proof -
  let ?bad = "[97, 98, 99] :: byte list"
  let ?brace = "[120, 156, 171, 6, 0, 0, 124, 0, 124] :: byte list"
  have z: "zlib_decompress stub ?bad = Inl ZlibError"
    by (simp add: event_defs)
  have d: "zlib_decompress stub ?brace = Inr [123]"
    by (simp add: event_defs)
  have j: "json_loads stub [123] = Inl JSONDecodeError"
    by (simp add: event_defs)
  have "completed stub (int (length ?bad)) ?bad = Completed ?bad (Inl DecompressionError)"
    using decode_failures_by_clause [of stub ?bad] z by blast
  moreover have "completed stub (int (length ?brace)) ?brace
                 = Completed ?brace (Inl (CatchAll JSONDecodeError))"
    using decode_failures_by_clause [of stub ?brace] d j by blast
  ultimately show ?thesis
    using z d j by blast
qed

subsection \<open>Fragment numbers below 1\<close>

text \<open>Without a \<open>TOT_SIZE\<close> such an update ends in the \<open>KeyError\<close> clause: the field is read.\<close>

lemma low_frag_num_needs_TOT_SIZE:
  assumes "carries L fd g s k chunk" and "k \<le> 1" and "fd ''TOT_SIZE'' = None"
  shows "process_mrn_update L envs (Message (Some fd)) = Inr (envs, Rejected KeyErrorCaught)"
  using assms(3)
  by (simp add: process_mrn_update_def try_block_first [OF assms(1,2)] first_fragment_def
      getitem_def)

text \<open>
  Claim C9. An update whose \<open>FRAG_NUM\<close> reads as any integer not above 1 (1, 0 or a
  negative number) takes the branch of the first fragment: its \<open>TOT_SIZE\<close> is read, and
  when the decoded chunk is not that long, a new envelope is appended whose stored
  fragment number is that \<open>FRAG_NUM\<close>.
\<close>

theorem low_frag_num_starts_envelope:
  assumes "carries L fd g s k chunk" and "k \<le> 1"
    and "declares L fd tot" and "tot \<noteq> int (length chunk)"
  shows "process_mrn_update L envs (Message (Some fd))
         = Inr (envs @ [\<lparr>GUID = g, data = \<lparr>FRAGMENT = chunk, MRN_SRC = s,
                                             FRAG_NUM = k, tot_size = tot\<rparr>\<rparr>], Pending)"
proof -
  obtain tv where "getitem fd ''TOT_SIZE'' = Inr tv" "py_int L tv = Inr tot"
    using declares_reads [OF assms(3)] by blast
  then show ?thesis
    using assms(4)
    by (simp add: process_mrn_update_def try_block_first [OF assms(1,2)] first_fragment_def)
qed

theorem low_frag_num_starts_envelope_witness:
  "carries stub (first_event (PStr ''g1'') (PStr ''src'') (- 2) ''YWJj'' 5)
     (PStr ''g1'') (PStr ''src'') (- 2) [97, 98, 99]
   \<and> declares stub (first_event (PStr ''g1'') (PStr ''src'') (- 2) ''YWJj'' 5) 5
   \<and> process_mrn_update stub []
        (Message (Some (first_event (PStr ''g1'') (PStr ''src'') (- 2) ''YWJj'' 5)))
      = Inr ([\<lparr>GUID = PStr ''g1'',
               data = \<lparr>FRAGMENT = [97, 98, 99], MRN_SRC = PStr ''src'',
                       FRAG_NUM = - 2, tot_size = 5\<rparr>\<rparr>],
             Pending)"
proof -
  let ?fd = "first_event (PStr ''g1'') (PStr ''src'') (- 2) ''YWJj'' 5"
  have h1: "carries stub ?fd (PStr ''g1'') (PStr ''src'') (- 2) [97, 98, 99]"
    by (simp add: carries_def event_defs)
  have h2: "(- 2 :: int) \<le> 1"
    by simp
  have h3: "declares stub ?fd 5"
    by (simp add: declares_def event_defs)
  have h4: "(5 :: int) \<noteq> int (length [97, 98, 99 :: byte])"
    by simp
  show ?thesis
    using h1 h3 low_frag_num_starts_envelope [OF h1 h2 h3 h4, of "[]"] by simp
qed

subsection \<open>\<open>TOT_SIZE\<close> on a following fragment\<close>

text \<open>
  Claim C10. For an update with fragment number above 1 the field \<open>TOT_SIZE\<close> is never
  read: two such updates that agree on every field but \<open>TOT_SIZE\<close> (present, absent or
  different), applied to the same list of envelopes, give the same outcome and the same
  list. Completion is judged against the \<open>tot_size\<close> stored in the envelope.
\<close>

theorem tot_size_not_read_after_first:
  assumes "\<forall>key. key \<noteq> ''TOT_SIZE'' \<longrightarrow> fd1 key = fd2 key"
    and "fd1 ''FRAG_NUM'' = Some nv" and "py_int L nv = Inr k" and "1 < k"
  shows "process_mrn_update L envs (Message (Some fd1))
         = process_mrn_update L envs (Message (Some fd2))"
proof -
  have same: "fd2 ''FRAGMENT'' = fd1 ''FRAGMENT''" "fd2 ''GUID'' = fd1 ''GUID''"
    "fd2 ''MRN_SRC'' = fd1 ''MRN_SRC''"
    using assms(1) by simp_all
  have num: "fd2 ''FRAG_NUM'' = Some nv"
    using assms(1,2) by simp
  show ?thesis
    using assms(2-4) num
    by (simp add: process_mrn_update_def try_block_def getitem_def same
        split: sum.splits option.splits)
qed

text \<open>
  The last fragment of the ten bytes of \<open>zlib.compress(b'{}')\<close>, once without \<open>TOT_SIZE\<close>
  and once with a \<open>TOT_SIZE\<close> of 99: both complete the message against the stored size.
\<close>

theorem tot_size_not_read_after_first_witness:
  "process_mrn_update stub
     [\<lparr>GUID = PStr ''g1'',
       data = \<lparr>FRAGMENT = [120, 156, 171, 174, 5, 0], MRN_SRC = PStr ''src'',
               FRAG_NUM = 1, tot_size = 10\<rparr>\<rparr>]
     (Message (Some (fragment_event (PStr ''g1'') (PStr ''src'') 2 ''AXUA+Q=='')))
   = Inr ([], Completed [120, 156, 171, 174, 5, 0, 1, 117, 0, 249] (Inr (JObject [])))
   \<and> process_mrn_update stub
     [\<lparr>GUID = PStr ''g1'',
       data = \<lparr>FRAGMENT = [120, 156, 171, 174, 5, 0], MRN_SRC = PStr ''src'',
               FRAG_NUM = 1, tot_size = 10\<rparr>\<rparr>]
     (Message (Some ((fragment_event (PStr ''g1'') (PStr ''src'') 2 ''AXUA+Q=='')
                       (''TOT_SIZE'' \<mapsto> PInt 99))))
   = Inr ([], Completed [120, 156, 171, 174, 5, 0, 1, 117, 0, 249] (Inr (JObject [])))"
proof -
  let ?fd1 = "fragment_event (PStr ''g1'') (PStr ''src'') 2 ''AXUA+Q==''"
  let ?fd2 = "?fd1(''TOT_SIZE'' \<mapsto> PInt 99)"
  let ?envs = "[\<lparr>GUID = PStr ''g1'',
                 data = \<lparr>FRAGMENT = [120, 156, 171, 174, 5, 0], MRN_SRC = PStr ''src'',
                         FRAG_NUM = 1, tot_size = 10\<rparr>\<rparr>]"
  have h1: "\<forall>key. key \<noteq> ''TOT_SIZE'' \<longrightarrow> ?fd1 key = ?fd2 key"
    by simp
  have h2: "?fd1 ''FRAG_NUM'' = Some (PInt 2)"
    by (simp add: fragment_event_def)
  have h3: "py_int stub (PInt 2) = Inr 2"
    by simp
  have h4: "(1 :: int) < 2"
    by simp
  have same: "process_mrn_update stub ?envs (Message (Some ?fd1))
              = process_mrn_update stub ?envs (Message (Some ?fd2))"
    using tot_size_not_read_after_first [OF h1 h2 h3 h4] .
  have one: "process_mrn_update stub ?envs (Message (Some ?fd1))
             = Inr ([], Completed [120, 156, 171, 174, 5, 0, 1, 117, 0, 249] (Inr (JObject [])))"
    by (simp add: model_defs event_defs del_at_def)
  show ?thesis
    using same one by simp
qed

end
